theory Spec2Isabelle
  imports Main "HOL-Library.Sublist"
begin

section \<open>Python values as the program sees them\<close>

text \<open>
  The four tools of \<^verbatim>\<open>main.py\<close> read the parsed JSON of an HTTP response with
  \<^verbatim>\<open>dict.get\<close>, \<^verbatim>\<open>data[0]\<close>, truth tests, \<^verbatim>\<open>str.split\<close> and
  f-string interpolation. The embedding gives each of these Python operations as a
  function on a datatype of parsed JSON, with every exception as a value.

  Strings are byte lists holding the UTF-8 encoding of the Python \<^verbatim>\<open>str\<close>. The
  program never counts characters; it splits at the ASCII letter T, and a UTF-8
  encoding has an ASCII byte only where the string has that ASCII character.
\<close>

datatype error =
    HTTPStatusError nat
  | TransportError
  | JSONDecodeError
  | AttributeError
  | TypeError
  | KeyError
  | IndexError

text \<open>
  A Python float is kept as what the shortest-repr conversion of CPython yields for it:
  a sign, the decimal digits of the shortest string that reads back as the same double,
  and the position of the decimal point (the value is \<open>0.d\<^sub>1d\<^sub>2\<dots> \<times> 10\<^sup>d\<^sup>e\<^sup>c\<^sup>p\<^sup>t\<close>);
  zero is the digit 0 with the point after it. The program does no arithmetic on floats:
  it only prints them and tests them for truth.
\<close>

datatype pyfloat =
    Finite bool "nat list" int
  | Infinite bool
  | NaN

datatype json =
    JNull
  | JBool bool
  | JInt int
  | JFloat pyfloat
  | JStr string
  | JArr "json list"
  | JObj "(string \<times> json) list"

text \<open>
  \<open>JObj\<close> is a Python dict in insertion order; its keys are distinct, since
  \<^verbatim>\<open>json.loads\<close> builds a dict. \<open>map_of\<close> looks a key up.
\<close>

subsection \<open>Sequencing of operations that may raise\<close>

definition bind :: "error + 'a \<Rightarrow> ('a \<Rightarrow> error + 'b) \<Rightarrow> error + 'b" where
  "bind m f = (case m of Inl e \<Rightarrow> Inl e | Inr x \<Rightarrow> f x)"

subsection \<open>Printing: what an f-string field renders\<close>

definition digit_char :: "nat \<Rightarrow> char" where
  "digit_char d = ''0123456789'' ! d"

function str_nat :: "nat \<Rightarrow> string" where
  "str_nat n = (if n < 10 then [digit_char n] else str_nat (n div 10) @ [digit_char (n mod 10)])"
  by pat_completeness auto
termination
  by (relation "measure id") auto

declare str_nat.simps [simp del]

definition str_int :: "int \<Rightarrow> string" where
  "str_int i = (if i < 0 then ''-'' @ str_nat (nat (- i)) else str_nat (nat i))"

definition digits_str :: "nat list \<Rightarrow> string" where
  "digits_str ds = map digit_char ds"

text \<open>
  \<^verbatim>\<open>repr\<close> of a float (which \<^verbatim>\<open>str\<close> and an f-string field use): the digits in
  positional notation when \<open>-4 < decpt \<le> 16\<close>, with \<^verbatim>\<open>.0\<close> added to a whole number;
  otherwise scientific notation, the exponent signed and of at least two digits.
\<close>

definition exp_str :: "int \<Rightarrow> string" where
  "exp_str e =
     (if e < 0 then ''-'' else ''+'') @
     (if \<bar>e\<bar> < 10 then ''0'' else '''') @ str_nat (nat \<bar>e\<bar>)"

definition float_repr :: "pyfloat \<Rightarrow> string" where
  "float_repr x =
     (case x of
        NaN \<Rightarrow> ''nan''
      | Infinite neg \<Rightarrow> (if neg then ''-inf'' else ''inf'')
      | Finite neg ds decpt \<Rightarrow>
          (if neg then ''-'' else '''') @
          (if decpt \<le> - 4 \<or> decpt > 16 then
             digits_str (take 1 ds) @
             (if length ds > 1 then ''.'' @ digits_str (drop 1 ds) else '''') @
             ''e'' @ exp_str (decpt - 1)
           else if decpt \<le> 0 then
             ''0.'' @ replicate (nat (- decpt)) CHR ''0'' @ digits_str ds
           else if nat decpt \<ge> length ds then
             digits_str ds @ replicate (nat decpt - length ds) CHR ''0'' @ ''.0''
           else
             digits_str (take (nat decpt) ds) @ ''.'' @ digits_str (drop (nat decpt) ds)))"

text \<open>
  \<^verbatim>\<open>str\<close> of a parsed JSON value. A list or a dict prints through Python's
  \<^verbatim>\<open>repr\<close>, whose quoting of strings depends on the Unicode character database; that
  part of the runtime is the parameter \<open>rp\<close>.
\<close>

fun py_str :: "(json \<Rightarrow> string) \<Rightarrow> json \<Rightarrow> string" where
  "py_str rp JNull = ''None''"
| "py_str rp (JBool b) = (if b then ''True'' else ''False'')"
| "py_str rp (JInt i) = str_int i"
| "py_str rp (JFloat x) = float_repr x"
| "py_str rp (JStr s) = s"
| "py_str rp (JArr xs) = rp (JArr xs)"
| "py_str rp (JObj kvs) = rp (JObj kvs)"

definition str_opt :: "string option \<Rightarrow> string" where
  "str_opt v = (case v of None \<Rightarrow> ''None'' | Some s \<Rightarrow> s)"

subsection \<open>Truth, indexing, iteration, attribute calls\<close>

fun float_nonzero :: "pyfloat \<Rightarrow> bool" where
  "float_nonzero (Finite neg ds decpt) = (\<exists>d \<in> set ds. d \<noteq> 0)"
| "float_nonzero (Infinite neg) = True"
| "float_nonzero NaN = True"

fun truthy :: "json \<Rightarrow> bool" where
  "truthy JNull = False"
| "truthy (JBool b) = b"
| "truthy (JInt i) = (i \<noteq> 0)"
| "truthy (JFloat x) = float_nonzero x"
| "truthy (JStr s) = (s \<noteq> [])"
| "truthy (JArr xs) = (xs \<noteq> [])"
| "truthy (JObj kvs) = (kvs \<noteq> [])"

text \<open>The number of bytes of the UTF-8 character that starts with byte \<open>c\<close>.\<close>

definition utf8_len :: "char \<Rightarrow> nat" where
  "utf8_len c =
     (let b = of_char c :: nat in
      if b < 192 then 1 else if b < 224 then 2 else if b < 240 then 3 else 4)"

function utf8_chars :: "string \<Rightarrow> string list" where
  "utf8_chars [] = []"
| "utf8_chars (c # cs) = take (utf8_len c) (c # cs) # utf8_chars (drop (utf8_len c) (c # cs))"
  by pat_completeness auto
termination
  by (relation "measure length") (auto simp: utf8_len_def Let_def)

text \<open>
  \<^verbatim>\<open>data[0]\<close>: the first element of a list (IndexError on the empty list), the first
  character of a string, KeyError on a dict (its keys are strings, never the integer 0),
  TypeError on a value that cannot be subscripted.
\<close>

fun index0 :: "json \<Rightarrow> error + json" where
  "index0 (JArr []) = Inl IndexError"
| "index0 (JArr (x # xs)) = Inr x"
| "index0 (JStr []) = Inl IndexError"
| "index0 (JStr (c # cs)) = Inr (JStr (take (utf8_len c) (c # cs)))"
| "index0 (JObj kvs) = Inl KeyError"
| "index0 v = Inl TypeError"

text \<open>
  \<^verbatim>\<open>for day in v\<close>: the elements of a list, the keys of a dict, the characters of a
  string; TypeError on a value that is not iterable.
\<close>

fun py_iter :: "json \<Rightarrow> error + json list" where
  "py_iter (JArr xs) = Inr xs"
| "py_iter (JObj kvs) = Inr (map (\<lambda>kv. JStr (fst kv)) kvs)"
| "py_iter (JStr s) = Inr (map JStr (utf8_chars s))"
| "py_iter v = Inl TypeError"

text \<open>
  \<^verbatim>\<open>v.get(k, d)\<close>: only a dict has the method; \<^verbatim>\<open>v.get(k)\<close> is
  \<^verbatim>\<open>v.get(k, None)\<close>.
\<close>

fun py_get :: "json \<Rightarrow> string \<Rightarrow> json \<Rightarrow> error + json" where
  "py_get (JObj kvs) k d = Inr (case map_of kvs k of None \<Rightarrow> d | Some v \<Rightarrow> v)"
| "py_get v k d = Inl AttributeError"

definition get1 :: "json \<Rightarrow> string \<Rightarrow> error + json" where
  "get1 v k = py_get v k JNull"

text \<open>
  \<^verbatim>\<open>s.split(sep)\<close> on strings: the pieces between the non-overlapping occurrences of
  \<open>sep\<close>, found from the left. (An empty \<open>sep\<close> raises ValueError in Python; the program
  passes the constant \<^verbatim>\<open>"T"\<close>.)
\<close>

function split_from :: "string \<Rightarrow> string \<Rightarrow> string \<Rightarrow> string list" where
  "split_from sep acc [] = [rev acc]"
| "split_from sep acc (c # cs) =
     (if sep \<noteq> [] \<and> prefix sep (c # cs)
      then rev acc # split_from sep [] (drop (length sep) (c # cs))
      else split_from sep (c # acc) cs)"
  by pat_completeness auto
termination
  by (relation "measure (\<lambda>(sep, acc, s). length s)") auto

definition str_split :: "string \<Rightarrow> string \<Rightarrow> string list" where
  "str_split s sep = split_from sep [] s"

text \<open>\<^verbatim>\<open>v.split("T")\<close> on a parsed value: only a string has the method.\<close>

fun py_split_T :: "json \<Rightarrow> error + string list" where
  "py_split_T (JStr s) = Inr (str_split s ''T'')"
| "py_split_T v = Inl AttributeError"

text \<open>\<^verbatim>\<open>xs[0]\<close> on the list that \<^verbatim>\<open>split\<close> returns.\<close>

fun first :: "'a list \<Rightarrow> error + 'a" where
  "first [] = Inl IndexError"
| "first (x # xs) = Inr x"

fun str_join :: "string \<Rightarrow> string list \<Rightarrow> string" where
  "str_join sep [] = []"
| "str_join sep [x] = x"
| "str_join sep (x # y # ys) = x @ sep @ str_join sep (y # ys)"


section \<open>The world outside the program\<close>

text \<open>
  A request is the URL and the query parameters handed to \<^verbatim>\<open>client.get\<close>; a
  parameter whose Python value is \<^verbatim>\<open>None\<close> (an unset environment variable) is
  \<open>None\<close>. A response is the status code and the body as \<^verbatim>\<open>response.json()\<close>
  parses it, \<open>None\<close> when the body is not JSON.

  The environment holds the two variables read at start-up, the HTTP client (which
  follows redirects itself, so it answers with the final response, or raises) and the
  runtime's \<^verbatim>\<open>repr\<close> of lists and dicts.
\<close>

record request =
  http_method :: string
  url :: string
  params :: "(string \<times> string option) list"

record response =
  status_code :: nat
  body :: "json option"

record env =
  API_KEY :: "string option"
  BASE_URL :: "string option"
  http_get :: "request \<Rightarrow> error + response"
  container_repr :: "json \<Rightarrow> string"

definition is_success :: "response \<Rightarrow> bool" where
  "is_success r = (200 \<le> status_code r \<and> status_code r \<le> 299)"

definition raise_for_status :: "response \<Rightarrow> error + unit" where
  "raise_for_status r =
     (if is_success r then Inr () else Inl (HTTPStatusError (status_code r)))"

definition response_json :: "response \<Rightarrow> error + json" where
  "response_json r = (case body r of None \<Rightarrow> Inl JSONDecodeError | Some v \<Rightarrow> Inr v)"

text \<open>
  The block every tool runs: \<^verbatim>\<open>client.get\<close>, \<^verbatim>\<open>raise_for_status\<close>,
  \<^verbatim>\<open>response.json()\<close>.
\<close>

definition fetch :: "env \<Rightarrow> request \<Rightarrow> error + json" where
  "fetch e rq =
     bind (http_get e rq) (\<lambda>response.
     bind (raise_for_status response) (\<lambda>_.
     response_json response))"

definition degree :: string where
  "degree = [CHR 0xC2, CHR 0xB0]"

definition newline :: string where
  "newline = [CHR 0x0A]"

section \<open>The four tools\<close>

text \<open>
  Each tool returns the requests it issued, in order, and either the text it returns or
  the exception that leaves it.
\<close>

subsection \<open>\<^verbatim>\<open>get_location_by_coordinates\<close>\<close>

definition location_request :: "env \<Rightarrow> pyfloat \<Rightarrow> pyfloat \<Rightarrow> request" where
  "location_request e latitude longitude =
     \<lparr>http_method = ''GET'',
      url = str_opt (BASE_URL e) @ ''/locations/v1/cities/geoposition/search'',
      params = [(''apikey'', API_KEY e),
                (''q'', Some (float_repr latitude @ '','' @ float_repr longitude))]\<rparr>"

definition location_text :: "(json \<Rightarrow> string) \<Rightarrow> json \<Rightarrow> error + string" where
  "location_text rp data =
     bind (get1 data ''Key'') (\<lambda>location_key.
     bind (get1 data ''LocalizedName'') (\<lambda>localized_name.
     bind (bind (py_get data ''AdministrativeArea'' (JObj []))
             (\<lambda>a. get1 a ''LocalizedName'')) (\<lambda>administrative_area.
     bind (bind (py_get data ''Country'' (JObj []))
             (\<lambda>c. get1 c ''LocalizedName'')) (\<lambda>country.
     Inr (''Location: '' @ py_str rp localized_name @ '', '' @
          py_str rp administrative_area @ '', '' @ py_str rp country @
          ''. Key: '' @ py_str rp location_key)))))"

definition get_location_by_coordinates ::
  "env \<Rightarrow> pyfloat \<Rightarrow> pyfloat \<Rightarrow> request list \<times> (error + string)" where
  "get_location_by_coordinates e latitude longitude =
     (let rq = location_request e latitude longitude
      in ([rq], bind (fetch e rq) (location_text (container_repr e))))"

subsection \<open>\<^verbatim>\<open>search_location\<close>\<close>

definition search_request :: "env \<Rightarrow> string \<Rightarrow> request" where
  "search_request e query =
     \<lparr>http_method = ''GET'',
      url = str_opt (BASE_URL e) @ ''/locations/v1/cities/search'',
      params = [(''apikey'', API_KEY e), (''q'', Some query)]\<rparr>"

definition search_text :: "(json \<Rightarrow> string) \<Rightarrow> json \<Rightarrow> error + string" where
  "search_text rp data =
     (if \<not> truthy data then Inr ''No location found.''
      else
        bind (index0 data) (\<lambda>top_match.
        bind (get1 top_match ''Key'') (\<lambda>location_key.
        bind (get1 top_match ''LocalizedName'') (\<lambda>localized_name.
        bind (bind (py_get top_match ''Country'' (JObj []))
                (\<lambda>c. get1 c ''LocalizedName'')) (\<lambda>country.
        Inr (''Found: '' @ py_str rp localized_name @ '', '' @ py_str rp country @
             ''. Key: '' @ py_str rp location_key))))))"

definition search_location :: "env \<Rightarrow> string \<Rightarrow> request list \<times> (error + string)" where
  "search_location e query =
     (let rq = search_request e query
      in ([rq], bind (fetch e rq) (search_text (container_repr e))))"

subsection \<open>\<^verbatim>\<open>get_current_weather\<close>\<close>

definition weather_request :: "env \<Rightarrow> string \<Rightarrow> request" where
  "weather_request e location_key =
     \<lparr>http_method = ''GET'',
      url = str_opt (BASE_URL e) @ ''/currentconditions/v1/'' @ location_key,
      params = [(''apikey'', API_KEY e)]\<rparr>"

definition metric_field :: "json \<Rightarrow> string \<Rightarrow> error + json" where
  "metric_field weather k =
     bind (py_get weather ''Temperature'' (JObj [])) (\<lambda>t.
     bind (py_get t ''Metric'' (JObj [])) (\<lambda>m.
     get1 m k))"

definition weather_text :: "(json \<Rightarrow> string) \<Rightarrow> json \<Rightarrow> error + string" where
  "weather_text rp data =
     (if \<not> truthy data then Inr ''No weather data available.''
      else
        bind (index0 data) (\<lambda>weather.
        bind (get1 weather ''WeatherText'') (\<lambda>weather_text.
        bind (metric_field weather ''Value'') (\<lambda>temp_value.
        bind (metric_field weather ''Unit'') (\<lambda>temp_unit.
        Inr (''Current Weather: '' @ py_str rp weather_text @ '', Temperature: '' @
             py_str rp temp_value @ degree @ py_str rp temp_unit))))))"

definition get_current_weather :: "env \<Rightarrow> string \<Rightarrow> request list \<times> (error + string)" where
  "get_current_weather e location_key =
     (let rq = weather_request e location_key
      in ([rq], bind (fetch e rq) (weather_text (container_repr e))))"

subsection \<open>\<^verbatim>\<open>get_forecast\<close>\<close>

definition forecast_request :: "env \<Rightarrow> string \<Rightarrow> int \<Rightarrow> request" where
  "forecast_request e location_key days =
     \<lparr>http_method = ''GET'',
      url = str_opt (BASE_URL e) @ ''/forecasts/v1/daily/5day/'' @ location_key,
      params = [(''apikey'', API_KEY e), (''metric'', Some ''true'')]\<rparr>"

text \<open>\<^verbatim>\<open>s.split("T")[0]\<close> on a string.\<close>

definition date_part :: "string \<Rightarrow> error + string" where
  "date_part s = first (str_split s ''T'')"

definition day_date :: "json \<Rightarrow> error + string" where
  "day_date day =
     bind (py_get day ''Date'' (JStr [])) (\<lambda>d.
     bind (py_split_T d) first)"

definition temperature_field :: "json \<Rightarrow> string \<Rightarrow> error + json" where
  "temperature_field day k =
     bind (py_get day ''Temperature'' (JObj [])) (\<lambda>t.
     bind (py_get t k (JObj [])) (\<lambda>m.
     get1 m ''Value''))"

definition day_line :: "(json \<Rightarrow> string) \<Rightarrow> json \<Rightarrow> error + string" where
  "day_line rp day =
     bind (day_date day) (\<lambda>date.
     bind (temperature_field day ''Minimum'') (\<lambda>min_temp.
     bind (temperature_field day ''Maximum'') (\<lambda>max_temp.
     bind (bind (py_get day ''Day'' (JObj [])) (\<lambda>d. get1 d ''IconPhrase'')) (\<lambda>day_phrase.
     Inr (''- '' @ date @ '': '' @ py_str rp day_phrase @ '', Min: '' @
          py_str rp min_temp @ degree @ ''C, Max: '' @ py_str rp max_temp @ degree @ ''C'')))))"

text \<open>
  The loop over the days appends one line per day to \<^verbatim>\<open>forecasts\<close>; an exception in
  the body ends the call.
\<close>

fun forecast_loop :: "(json \<Rightarrow> string) \<Rightarrow> json list \<Rightarrow> string list \<Rightarrow> error + string list" where
  "forecast_loop rp [] forecasts = Inr forecasts"
| "forecast_loop rp (day # days) forecasts =
     bind (day_line rp day) (\<lambda>l. forecast_loop rp days (forecasts @ [l]))"

definition headline_line :: "(json \<Rightarrow> string) \<Rightarrow> json \<Rightarrow> error + string" where
  "headline_line rp data =
     bind (py_get data ''Headline'' (JObj [])) (\<lambda>h.
     bind (py_get h ''Text'' (JStr ''No headline'')) (\<lambda>headline.
     Inr (''Forecast Headline: '' @ py_str rp headline)))"

definition forecast_text :: "(json \<Rightarrow> string) \<Rightarrow> json \<Rightarrow> error + string" where
  "forecast_text rp data =
     bind (headline_line rp data) (\<lambda>hl.
     bind (py_get data ''DailyForecasts'' (JArr [])) (\<lambda>ds.
     bind (py_iter ds) (\<lambda>days.
     bind (forecast_loop rp days [hl]) (\<lambda>forecasts.
     Inr (str_join newline forecasts)))))"

definition get_forecast :: "env \<Rightarrow> string \<Rightarrow> int \<Rightarrow> request list \<times> (error + string)" where
  "get_forecast e location_key days =
     (let rq = forecast_request e location_key days
      in ([rq], bind (fetch e rq) (forecast_text (container_repr e))))"

section \<open>Notions the statements use\<close>

text \<open>
  An upstream that answers every request with the same status and body, and an
  environment around it, for the concrete instances below.
\<close>

definition upstream :: "nat \<Rightarrow> json option \<Rightarrow> request \<Rightarrow> error + response" where
  "upstream st b rq = Inr \<lparr>status_code = st, body = b\<rparr>"

definition example_env :: "nat \<Rightarrow> json option \<Rightarrow> env" where
  "example_env st b =
     \<lparr>API_KEY = Some ''k3y'', BASE_URL = Some ''https://api.example'',
      http_get = upstream st b, container_repr = (\<lambda>v. ''<repr>'')\<rparr>"

text \<open>The upstream answers request \<open>rq\<close> with a 2xx status and the JSON value \<open>data\<close>.\<close>

definition answers :: "env \<Rightarrow> request \<Rightarrow> json \<Rightarrow> bool" where
  "answers e rq data =
     (case http_get e rq of
        Inl err \<Rightarrow> False
      | Inr r \<Rightarrow> 200 \<le> status_code r \<and> status_code r \<le> 299 \<and> body r = Some data)"




text \<open>
  A field of a response, named by the path of keys that leads to it through nested
  objects; \<open>None\<close> when a key on the path is missing or a value on the path is not an
  object. \<open>shown\<close> is the rendering of a field whose placeholder is \<^verbatim>\<open>None\<close>.
\<close>

fun field :: "json \<Rightarrow> string list \<Rightarrow> json option" where
  "field v [] = Some v"
| "field (JObj kvs) (k # ks) = (case map_of kvs k of None \<Rightarrow> None | Some v \<Rightarrow> field v ks)"
| "field v (k # ks) = None"

definition value_or_null :: "json option \<Rightarrow> json" where
  "value_or_null f = (case f of None \<Rightarrow> JNull | Some v \<Rightarrow> v)"

definition shown :: "(json \<Rightarrow> string) \<Rightarrow> json option \<Rightarrow> string" where
  "shown rp f = (case f of None \<Rightarrow> ''None'' | Some v \<Rightarrow> py_str rp v)"

fun is_obj :: "json \<Rightarrow> bool" where
  "is_obj (JObj kvs) = True"
| "is_obj v = False"

definition obj_or_absent :: "json \<Rightarrow> string list \<Rightarrow> bool" where
  "obj_or_absent v path = (case field v path of None \<Rightarrow> True | Some w \<Rightarrow> is_obj w)"

text \<open>
  The shapes under which the tools read a response without raising: the response (or
  the element read) is an object, every nested object on the way to a field is an object
  where its key is present, \<^verbatim>\<open>DailyForecasts\<close> is an array where present, and a
  \<^verbatim>\<open>Date\<close> is a string where present. Any key may be missing.
\<close>

definition location_shape :: "json \<Rightarrow> bool" where
  "location_shape data =
     (is_obj data \<and> obj_or_absent data [''AdministrativeArea''] \<and>
      obj_or_absent data [''Country''])"

definition candidate_shape :: "json \<Rightarrow> bool" where
  "candidate_shape x = (is_obj x \<and> obj_or_absent x [''Country''])"

definition conditions_shape :: "json \<Rightarrow> bool" where
  "conditions_shape w =
     (is_obj w \<and> obj_or_absent w [''Temperature''] \<and>
      obj_or_absent w [''Temperature'', ''Metric''])"

definition date_shape :: "json \<Rightarrow> bool" where
  "date_shape day =
     (case field day [''Date''] of None \<Rightarrow> True | Some (JStr s) \<Rightarrow> True | Some v \<Rightarrow> False)"

definition day_shape :: "json \<Rightarrow> bool" where
  "day_shape day =
     (is_obj day \<and> date_shape day \<and> obj_or_absent day [''Temperature''] \<and>
      obj_or_absent day [''Temperature'', ''Minimum''] \<and>
      obj_or_absent day [''Temperature'', ''Maximum''] \<and>
      obj_or_absent day [''Day''])"

definition forecast_days :: "json \<Rightarrow> json list" where
  "forecast_days data =
     (case field data [''DailyForecasts''] of Some (JArr ds) \<Rightarrow> ds | _ \<Rightarrow> [])"

definition forecast_shape :: "json \<Rightarrow> bool" where
  "forecast_shape data =
     (is_obj data \<and> obj_or_absent data [''Headline''] \<and>
      (case field data [''DailyForecasts''] of
         None \<Rightarrow> True
       | Some (JArr ds) \<Rightarrow> list_all day_shape ds
       | Some v \<Rightarrow> False))"

text \<open>
  What the forecast shows for a date (the text before the first T; nothing when the key
  is missing) and for the headline (\<^verbatim>\<open>No headline\<close> when it is missing), the line of
  a day, and the line a day would have if every field had the one placeholder \<open>p\<close>.
\<close>

definition shown_date :: "json \<Rightarrow> string" where
  "shown_date day =
     (case field day [''Date''] of
        Some (JStr s) \<Rightarrow> takeWhile (\<lambda>c. c \<noteq> CHR ''T'') s
      | _ \<Rightarrow> [])"

definition shown_headline :: "(json \<Rightarrow> string) \<Rightarrow> json \<Rightarrow> string" where
  "shown_headline rp data =
     (case field data [''Headline'', ''Text''] of
        None \<Rightarrow> ''No headline''
      | Some v \<Rightarrow> py_str rp v)"

definition expected_day_line :: "(json \<Rightarrow> string) \<Rightarrow> json \<Rightarrow> string" where
  "expected_day_line rp day =
     ''- '' @ shown_date day @ '': '' @ shown rp (field day [''Day'', ''IconPhrase'']) @
     '', Min: '' @ shown rp (field day [''Temperature'', ''Minimum'', ''Value'']) @ degree @
     ''C, Max: '' @ shown rp (field day [''Temperature'', ''Maximum'', ''Value'']) @ degree @
     ''C''"

definition uniform_day_line :: "string \<Rightarrow> string" where
  "uniform_day_line p =
     ''- '' @ p @ '': '' @ p @ '', Min: '' @ p @ degree @ ''C, Max: '' @ p @ degree @ ''C''"

text \<open>
  A plain decimal numeral: an optional minus sign, digits, a point, digits. A float is
  positional when it is finite and the point of its shortest digits stands at
  \<open>-4 < decpt \<le> 16\<close>: zero, or a magnitude from \<open>10\<^sup>-\<^sup>4\<close> up to, not including,
  \<open>10\<^sup>1\<^sup>6\<close>.
\<close>

definition is_digit :: "char \<Rightarrow> bool" where
  "is_digit c = (c \<in> set ''0123456789'')"

definition unsigned_decimal :: "string \<Rightarrow> bool" where
  "unsigned_decimal s =
     (let ip = takeWhile is_digit s; rest = dropWhile is_digit s
      in ip \<noteq> [] \<and>
         (case rest of [] \<Rightarrow> False
          | c # fp \<Rightarrow> c = CHR ''.'' \<and> fp \<noteq> [] \<and> list_all is_digit fp))"

definition plain_decimal :: "string \<Rightarrow> bool" where
  "plain_decimal s =
     (case s of [] \<Rightarrow> False
      | c # cs \<Rightarrow> if c = CHR ''-'' then unsigned_decimal cs else unsigned_decimal s)"

fun positional :: "pyfloat \<Rightarrow> bool" where
  "positional (Finite neg ds decpt) =
     (ds \<noteq> [] \<and> list_all (\<lambda>d. d < 10) ds \<and> - 4 < decpt \<and> decpt \<le> 16)"
| "positional x = False"

text \<open>
  A float is out of the positional range when it is infinite, not a number, or finite
  with the point of its shortest digits at \<open>decpt \<le> -4\<close> or \<open>decpt > 16\<close>: a non-zero
  magnitude below \<open>10\<^sup>-\<^sup>4\<close>, or one of \<open>10\<^sup>1\<^sup>6\<close> or more.
\<close>

fun out_of_range :: "pyfloat \<Rightarrow> bool" where
  "out_of_range (Finite neg ds decpt) = (decpt \<le> - 4 \<or> 16 < decpt)"
| "out_of_range x = True"

section \<open>Basic facts\<close>

lemma bind_Inl [simp]: "bind (Inl err) f = Inl err"
  by (simp add: bind_def)

lemma bind_Inr [simp]: "bind (Inr x) f = f x"
  by (simp add: bind_def)

lemma fetch_failure:
  "http_get e rq = Inr r \<Longrightarrow> \<not> is_success r \<Longrightarrow>
   fetch e rq = Inl (HTTPStatusError (status_code r))"
  by (simp add: fetch_def raise_for_status_def)

lemma fetch_success:
  "http_get e rq = Inr r \<Longrightarrow> is_success r \<Longrightarrow> body r = Some v \<Longrightarrow> fetch e rq = Inr v"
  by (simp add: fetch_def raise_for_status_def response_json_def)

lemma fetch_answers: "answers e rq data \<Longrightarrow> fetch e rq = Inr data"
  by (auto simp: answers_def is_success_def split: sum.splits intro: fetch_success)

lemma example_env_simps [simp]:
  "API_KEY (example_env st b) = Some ''k3y''"
  "BASE_URL (example_env st b) = Some ''https://api.example''"
  "http_get (example_env st b) rq = Inr \<lparr>status_code = st, body = b\<rparr>"
  "container_repr (example_env st b) v = ''<repr>''"
  by (simp_all add: example_env_def upstream_def)

section \<open>Reading a response\<close>

lemma first_split_from:
  "first (split_from ''T'' acc s) = Inr (rev acc @ takeWhile (\<lambda>c. c \<noteq> CHR ''T'') s)"
  by (induction s arbitrary: acc) auto

lemma date_part_takeWhile: "date_part s = Inr (takeWhile (\<lambda>c. c \<noteq> CHR ''T'') s)"
  by (simp add: date_part_def str_split_def first_split_from)

lemma day_date_string:
  "map_of kvs ''Date'' = Some (JStr s) \<Longrightarrow> day_date (JObj kvs) = date_part s"
  by (simp add: day_date_def date_part_def)

lemma py_str_value_or_null [simp]: "py_str rp (value_or_null f) = shown rp f"
  by (cases f) (simp_all add: value_or_null_def shown_def)

lemma is_obj_iff: "is_obj v \<longleftrightarrow> (\<exists>kvs. v = JObj kvs)"
  by (cases v) simp_all

lemma get1_field:
  "is_obj v \<Longrightarrow> get1 v k = Inr (value_or_null (field v [k]))"
  by (auto simp: is_obj_iff get1_def value_or_null_def split: option.splits)

lemma get2_field:
  assumes "is_obj v" "obj_or_absent v [a]"
  shows "bind (py_get v a (JObj [])) (\<lambda>x. get1 x b) = Inr (value_or_null (field v [a, b]))"
proof -
  from assms obtain kvs where v: "v = JObj kvs"
    by (auto simp: is_obj_iff)
  show ?thesis
  proof (cases "map_of kvs a")
    case None
    then show ?thesis
      by (simp add: v get1_def value_or_null_def)
  next
    case (Some w)
    with assms v obtain kvs' where "w = JObj kvs'"
      by (auto simp: obj_or_absent_def is_obj_iff)
    with Some show ?thesis
      by (simp add: v get1_def value_or_null_def split: option.splits)
  qed
qed

lemma get3_field:
  assumes "is_obj v" "obj_or_absent v [a]" "obj_or_absent v [a, b]"
  shows "bind (py_get v a (JObj [])) (\<lambda>t. bind (py_get t b (JObj [])) (\<lambda>m. get1 m c)) =
     Inr (value_or_null (field v [a, b, c]))"
proof -
  from assms obtain kvs where v: "v = JObj kvs"
    by (auto simp: is_obj_iff)
  show ?thesis
  proof (cases "map_of kvs a")
    case None
    then show ?thesis
      by (simp add: v get1_def value_or_null_def)
  next
    case (Some w)
    with assms v obtain kvs' where w: "w = JObj kvs'"
      by (auto simp: obj_or_absent_def is_obj_iff)
    from assms(3) Some have inner: "obj_or_absent w [b]"
      by (simp add: v w obj_or_absent_def)
    have "bind (py_get w b (JObj [])) (\<lambda>m. get1 m c) = Inr (value_or_null (field w [b, c]))"
      by (rule get2_field) (simp_all add: w inner [unfolded w])
    with Some show ?thesis
      by (simp add: v w)
  qed
qed

lemma location_text_shape:
  "location_shape data \<Longrightarrow>
   location_text rp data =
     Inr (''Location: '' @ shown rp (field data [''LocalizedName'']) @ '', '' @
          shown rp (field data [''AdministrativeArea'', ''LocalizedName'']) @ '', '' @
          shown rp (field data [''Country'', ''LocalizedName'']) @
          ''. Key: '' @ shown rp (field data [''Key'']))"
  by (simp add: location_shape_def location_text_def get1_field get2_field)

lemma search_text_shape:
  "candidate_shape x \<Longrightarrow>
   search_text rp (JArr (x # xs)) =
     Inr (''Found: '' @ shown rp (field x [''LocalizedName'']) @ '', '' @
          shown rp (field x [''Country'', ''LocalizedName'']) @
          ''. Key: '' @ shown rp (field x [''Key'']))"
  by (simp add: candidate_shape_def search_text_def get1_field get2_field)

lemma weather_text_shape:
  "conditions_shape w \<Longrightarrow>
   weather_text rp (JArr (w # ws)) =
     Inr (''Current Weather: '' @ shown rp (field w [''WeatherText'']) @ '', Temperature: '' @
          shown rp (field w [''Temperature'', ''Metric'', ''Value'']) @ degree @
          shown rp (field w [''Temperature'', ''Metric'', ''Unit'']))"
  by (simp add: conditions_shape_def weather_text_def metric_field_def get1_field get3_field)

lemma day_date_shape:
  "is_obj day \<Longrightarrow> date_shape day \<Longrightarrow> day_date day = Inr (shown_date day)"
  by (cases day)
     (auto simp: date_shape_def day_date_def shown_date_def str_split_def first_split_from
           split: option.splits json.splits)

lemma day_line_shape:
  "day_shape day \<Longrightarrow> day_line rp day = Inr (expected_day_line rp day)"
  by (simp add: day_shape_def day_line_def temperature_field_def expected_day_line_def
      day_date_shape get2_field get3_field)

lemma forecast_loop_shape:
  "list_all day_shape ds \<Longrightarrow>
   forecast_loop rp ds acc = Inr (acc @ map (expected_day_line rp) ds)"
  by (induction ds arbitrary: acc) (simp_all add: day_line_shape)

lemma headline_line_shape:
  "is_obj data \<Longrightarrow> obj_or_absent data [''Headline''] \<Longrightarrow>
   headline_line rp data = Inr (''Forecast Headline: '' @ shown_headline rp data)"
  by (auto simp: is_obj_iff obj_or_absent_def headline_line_def shown_headline_def
           split: option.splits)

lemma forecast_text_shape:
  "forecast_shape data \<Longrightarrow>
   forecast_text rp data =
     Inr (str_join newline ((''Forecast Headline: '' @ shown_headline rp data) #
            map (expected_day_line rp) (forecast_days data)))"
  by (cases data)
     (auto simp: forecast_shape_def forecast_text_def headline_line_shape forecast_days_def
           forecast_loop_shape split: option.splits json.splits)

lemma py_get_not_obj: "\<not> is_obj v \<Longrightarrow> py_get v k d = Inl AttributeError"
  by (cases v) simp_all

lemma search_text_misshapen:
  assumes "\<not> candidate_shape x"
  shows "search_text rp (JArr (x # xs)) = Inl AttributeError"
proof (cases "is_obj x")
  case False
  then show ?thesis
    by (simp add: search_text_def get1_def py_get_not_obj)
next
  case True
  then obtain kvs where x: "x = JObj kvs"
    by (auto simp: is_obj_iff)
  with assms obtain c where c: "map_of kvs ''Country'' = Some c" "\<not> is_obj c"
    by (auto simp: candidate_shape_def obj_or_absent_def split: option.splits)
  then show ?thesis
    by (simp add: x search_text_def get1_def py_get_not_obj)
qed




section \<open>Upstream failures and empty results\<close>

text \<open>
  C1. When the response that the client hands to a tool has a status code outside
  200..299, the tool raises \<^verbatim>\<open>HTTPStatusError\<close> carrying that status code; this holds
  for each of the four tools, so none of them returns a text then.
\<close>

theorem non_2xx_status_propagates:
  assumes "status_code r < 200 \<or> 299 < status_code r"
  shows
    "(http_get e (location_request e latitude longitude) = Inr r \<longrightarrow>
        snd (get_location_by_coordinates e latitude longitude) =
          Inl (HTTPStatusError (status_code r))) \<and>
     (http_get e (search_request e query) = Inr r \<longrightarrow>
        snd (search_location e query) = Inl (HTTPStatusError (status_code r))) \<and>
     (http_get e (weather_request e location_key) = Inr r \<longrightarrow>
        snd (get_current_weather e location_key) = Inl (HTTPStatusError (status_code r))) \<and>
     (http_get e (forecast_request e location_key days) = Inr r \<longrightarrow>
        snd (get_forecast e location_key days) = Inl (HTTPStatusError (status_code r)))"
proof -
  from assms have ns: "\<not> is_success r"
    by (auto simp: is_success_def)
  show ?thesis
    by (simp add: get_location_by_coordinates_def search_location_def
        get_current_weather_def get_forecast_def Let_def fetch_failure [OF _ ns])
qed

theorem non_2xx_status_propagates_witness:
  "snd (get_location_by_coordinates (example_env 404 None)
          (Finite False [5,2,5] 2) (Finite False [1,3,4] 2)) = Inl (HTTPStatusError 404) \<and>
   snd (search_location (example_env 404 None) ''Berlin'') = Inl (HTTPStatusError 404) \<and>
   snd (get_current_weather (example_env 404 None) ''178087'') = Inl (HTTPStatusError 404) \<and>
   snd (get_forecast (example_env 404 None) ''178087'' 5) = Inl (HTTPStatusError 404)"
  using non_2xx_status_propagates [of "\<lparr>status_code = 404, body = None\<rparr>"
      "example_env 404 None" "Finite False [5,2,5] 2" "Finite False [1,3,4] 2"
      "''Berlin''" "''178087''" 5]
  by simp

text \<open>
  C2. When the upstream answers with a 2xx status and the empty JSON array,
  \<^verbatim>\<open>search_location\<close> returns exactly \<^verbatim>\<open>No location found.\<close> and
  \<^verbatim>\<open>get_current_weather\<close> returns exactly \<^verbatim>\<open>No weather data available.\<close>, each as
  a text and not as an exception. No field is read: reading element 0 of the empty
  array would have raised IndexError.
\<close>

theorem empty_array_is_a_text_result:
  assumes "200 \<le> status_code r" "status_code r \<le> 299" "body r = Some (JArr [])"
  shows
    "(http_get e (search_request e query) = Inr r \<longrightarrow>
        search_location e query = ([search_request e query], Inr ''No location found.'')) \<and>
     (http_get e (weather_request e location_key) = Inr r \<longrightarrow>
        get_current_weather e location_key =
          ([weather_request e location_key], Inr ''No weather data available.'')) \<and>
     index0 (JArr []) = Inl IndexError"
proof -
  from assms have s: "is_success r"
    by (simp add: is_success_def)
  show ?thesis
    by (simp add: search_location_def get_current_weather_def Let_def
        fetch_success [OF _ s assms(3)] search_text_def weather_text_def)
qed

theorem empty_array_is_a_text_result_witness:
  "snd (search_location (example_env 200 (Some (JArr []))) ''Atlantis'') =
     Inr ''No location found.'' \<and>
   snd (get_current_weather (example_env 200 (Some (JArr []))) ''178087'') =
     Inr ''No weather data available.''"
  using empty_array_is_a_text_result [of "\<lparr>status_code = 200, body = Some (JArr [])\<rparr>"
      "example_env 200 (Some (JArr []))" "''Atlantis''" "''178087''"]
  by simp

section \<open>What the requests and results depend on\<close>

text \<open>
  C3. \<^verbatim>\<open>get_forecast\<close> does not read \<^verbatim>\<open>days\<close>: for any two values the request
  issued and the result are the same, and the one request goes to
  \<^verbatim>\<open>/forecasts/v1/daily/5day/{location_key}\<close> under the base URL, with the parameters
  \<^verbatim>\<open>apikey\<close> and \<^verbatim>\<open>metric=true\<close>.
\<close>

theorem forecast_ignores_days:
  "get_forecast e location_key days = get_forecast e location_key days' \<and>
   fst (get_forecast e location_key days) =
     [\<lparr>http_method = ''GET'',
       url = str_opt (BASE_URL e) @ ''/forecasts/v1/daily/5day/'' @ location_key,
       params = [(''apikey'', API_KEY e), (''metric'', Some ''true'')]\<rparr>]"
  by (simp add: get_forecast_def forecast_request_def Let_def)

text \<open>
  C4. On a non-empty array of candidates \<^verbatim>\<open>search_location\<close> reads element 0 only.
  Replacing the elements after the first by any others changes neither the text computed
  from the array nor what the tool returns, and the tool returns what it would for the
  array of element 0 alone. The text is \<^verbatim>\<open>Found: {name}, {country}. Key: {key}\<close>
  with \<^verbatim>\<open>LocalizedName\<close>, \<^verbatim>\<open>Country.LocalizedName\<close> and \<^verbatim>\<open>Key\<close> of
  element 0, when element 0 is an object whose \<^verbatim>\<open>Country\<close>, if present, is an
  object; for any other element 0 the call raises AttributeError, whatever follows it.
\<close>

theorem search_reads_first_candidate_only:
  "search_text rp (JArr (x # xs)) = search_text rp (JArr (x # ys)) \<and>
   search_location
     (e\<lparr>http_get := \<lambda>rq. Inr \<lparr>status_code = st, body = Some (JArr (x # xs))\<rparr>\<rparr>) query =
   search_location
     (e\<lparr>http_get := \<lambda>rq. Inr \<lparr>status_code = st, body = Some (JArr (x # ys))\<rparr>\<rparr>) query \<and>
   (candidate_shape x \<longrightarrow>
      search_text rp (JArr (x # xs)) =
        Inr (''Found: '' @ shown rp (field x [''LocalizedName'']) @ '', '' @
             shown rp (field x [''Country'', ''LocalizedName'']) @
             ''. Key: '' @ shown rp (field x [''Key'']))) \<and>
   (\<not> candidate_shape x \<longrightarrow> search_text rp (JArr (x # xs)) = Inl AttributeError) \<and>
   (answers e (search_request e query) (JArr (x # xs)) \<longrightarrow>
      snd (search_location e query) = search_text (container_repr e) (JArr [x]))"
proof -
  have a: "search_text rp (JArr (x # xs)) = search_text rp (JArr (x # ys))"
    by (simp add: search_text_def)
  have b: "search_location
     (e\<lparr>http_get := \<lambda>rq. Inr \<lparr>status_code = st, body = Some (JArr (x # xs))\<rparr>\<rparr>) query =
   search_location
     (e\<lparr>http_get := \<lambda>rq. Inr \<lparr>status_code = st, body = Some (JArr (x # ys))\<rparr>\<rparr>) query"
    by (simp add: search_location_def search_request_def Let_def fetch_def search_text_def
        raise_for_status_def response_json_def is_success_def)
  have c: "candidate_shape x \<longrightarrow>
      search_text rp (JArr (x # xs)) =
        Inr (''Found: '' @ shown rp (field x [''LocalizedName'']) @ '', '' @
             shown rp (field x [''Country'', ''LocalizedName'']) @
             ''. Key: '' @ shown rp (field x [''Key'']))"
    by (simp add: search_text_shape)
  have d: "\<not> candidate_shape x \<longrightarrow> search_text rp (JArr (x # xs)) = Inl AttributeError"
    by (simp add: search_text_misshapen)
  have f: "answers e (search_request e query) (JArr (x # xs)) \<longrightarrow>
      snd (search_location e query) = search_text (container_repr e) (JArr [x])"
    by (auto simp: search_location_def Let_def search_text_def dest!: fetch_answers)
  from a b c d f show ?thesis
    by blast
qed

theorem search_reads_first_candidate_only_witness:
  "snd (search_location
     (example_env 200 (Some (JArr
        [JObj [(''Key'', JStr ''178087''), (''LocalizedName'', JStr ''Berlin''),
               (''Country'', JObj [(''LocalizedName'', JStr ''Germany'')])],
         JObj [(''Key'', JStr ''2193733''), (''LocalizedName'', JStr ''Berlin''),
               (''Country'', JObj [(''LocalizedName'', JStr ''United States'')])]])))
     ''Berlin'') = Inr ''Found: Berlin, Germany. Key: 178087'' \<and>
   search_text (\<lambda>v. ''<repr>'') (JArr [JStr ''Berlin'', JObj []]) = Inl AttributeError"
  using
    search_reads_first_candidate_only [where rp = "\<lambda>v. ''<repr>''"
      and x = "JObj [(''Key'', JStr ''178087''), (''LocalizedName'', JStr ''Berlin''),
             (''Country'', JObj [(''LocalizedName'', JStr ''Germany'')])]"
      and xs = "[JObj [(''Key'', JStr ''2193733''), (''LocalizedName'', JStr ''Berlin''),
               (''Country'', JObj [(''LocalizedName'', JStr ''United States'')])]]"
      and ys = "[]"
      and e = "example_env 200 (Some (JArr
        [JObj [(''Key'', JStr ''178087''), (''LocalizedName'', JStr ''Berlin''),
               (''Country'', JObj [(''LocalizedName'', JStr ''Germany'')])],
         JObj [(''Key'', JStr ''2193733''), (''LocalizedName'', JStr ''Berlin''),
               (''Country'', JObj [(''LocalizedName'', JStr ''United States'')])]]))"
      and st = 200 and query = "''Berlin''"]
    search_reads_first_candidate_only [where rp = "\<lambda>v. ''<repr>''" and x = "JStr ''Berlin''" and xs = "[JObj []]"
      and ys = "[]"]
  by (simp add: search_location_def Let_def fetch_def raise_for_status_def is_success_def
      response_json_def search_text_def get1_def)

section \<open>The forecast text\<close>








section \<open>The date of a day\<close>

text \<open>
  C7. The date extraction \<^verbatim>\<open>split("T")[0]\<close> maps \<^verbatim>\<open>2024-05-01T08:00:00\<close> to
  \<^verbatim>\<open>2024-05-01\<close>, returns a string without the letter T unchanged, and is idempotent:
  it always returns a string, which it maps to itself. It is what \<^verbatim>\<open>get_forecast\<close>
  applies to a \<^verbatim>\<open>Date\<close> that is a string.
\<close>

theorem date_extraction_idempotent:
  "date_part ''2024-05-01T08:00:00'' = Inr ''2024-05-01'' \<and>
   (CHR ''T'' \<notin> set s \<longrightarrow> date_part s = Inr s) \<and>
   (\<exists>d. date_part s = Inr d \<and> date_part d = Inr d) \<and>
   (map_of kvs ''Date'' = Some (JStr s) \<longrightarrow> day_date (JObj kvs) = date_part s)"
proof -
  have a: "date_part ''2024-05-01T08:00:00'' = Inr ''2024-05-01''"
    by (simp add: date_part_takeWhile)
  have b: "CHR ''T'' \<notin> set s \<longrightarrow> date_part s = Inr s"
    by (auto simp: date_part_takeWhile)
  have c: "\<exists>d. date_part s = Inr d \<and> date_part d = Inr d"
    by (auto simp: date_part_takeWhile dest: set_takeWhileD)
  have d: "map_of kvs ''Date'' = Some (JStr s) \<longrightarrow> day_date (JObj kvs) = date_part s"
    by (simp add: day_date_string)
  from a b c d show ?thesis
    by blast
qed

theorem date_extraction_idempotent_witness:
  "date_part ''2024-05-01'' = Inr ''2024-05-01'' \<and>
   day_date (JObj [(''Date'', JStr ''2024-05-01T08:00:00'')]) = Inr ''2024-05-01''"
  using date_extraction_idempotent [of "''2024-05-01''" "[(''Date'', JStr ''2024-05-01'')]"]
    date_extraction_idempotent
      [of "''2024-05-01T08:00:00''" "[(''Date'', JStr ''2024-05-01T08:00:00'')]"]
  by simp

text \<open>
  C10. A day without the key \<^verbatim>\<open>Date\<close> has the empty string as its date, so its
  line, when there is one, begins \<^verbatim>\<open>- : \<close>. The other fields of a day that are
  absent (\<^verbatim>\<open>IconPhrase\<close>, \<^verbatim>\<open>Minimum.Value\<close>, \<^verbatim>\<open>Maximum.Value\<close>) are read as
  \<^verbatim>\<open>None\<close> and print as the text \<^verbatim>\<open>None\<close>, as the line of the empty day shows;
  the two renderings differ.
\<close>

theorem absent_date_renders_empty:
  "(map_of kvs ''Date'' = None \<longrightarrow>
      day_date (JObj kvs) = Inr [] \<and>
      (\<forall>l. day_line rp (JObj kvs) = Inr l \<longrightarrow> prefix ''- : '' l)) \<and>
   day_line rp (JObj []) =
     Inr (''- : None, Min: None'' @ degree @ ''C, Max: None'' @ degree @ ''C'') \<and>
   temperature_field (JObj []) ''Minimum'' = Inr JNull \<and>
   temperature_field (JObj []) ''Maximum'' = Inr JNull \<and>
   bind (py_get (JObj []) ''Day'' (JObj [])) (\<lambda>d. get1 d ''IconPhrase'') = Inr JNull \<and>
   py_str rp JNull = ''None''"
proof -
  have a: "map_of kvs ''Date'' = None \<longrightarrow> day_date (JObj kvs) = Inr []"
    by (simp add: day_date_def str_split_def)
  have b: "map_of kvs ''Date'' = None \<longrightarrow>
      (\<forall>l. day_line rp (JObj kvs) = Inr l \<longrightarrow> prefix ''- : '' l)"
  proof (intro impI allI)
    fix l
    assume "map_of kvs ''Date'' = None" and l: "day_line rp (JObj kvs) = Inr l"
    with a have d: "day_date (JObj kvs) = Inr []"
      by simp
    from l show "prefix ''- : '' l"
      unfolding day_line_def d
      by (auto simp: bind_def split: sum.splits)
  qed
  have c: "day_line rp (JObj []) =
     Inr (''- : None, Min: None'' @ degree @ ''C, Max: None'' @ degree @ ''C'')"
    by (simp add: day_line_def day_date_def str_split_def temperature_field_def get1_def)
  have d: "temperature_field (JObj []) ''Minimum'' = Inr JNull"
    "temperature_field (JObj []) ''Maximum'' = Inr JNull"
    "bind (py_get (JObj []) ''Day'' (JObj [])) (\<lambda>d. get1 d ''IconPhrase'') = Inr JNull"
    "py_str rp JNull = ''None''"
    by (simp_all add: temperature_field_def get1_def)
  from a b c d show ?thesis
    by blast
qed

theorem absent_date_renders_empty_witness:
  "snd (get_forecast
          (example_env 200 (Some (JObj [(''DailyForecasts'',
             JArr [JObj [(''Day'', JObj [(''IconPhrase'', JStr ''Sunny'')])]])])))
          ''178087'' 5) =
     Inr (''Forecast Headline: No headline'' @ newline @
          ''- : Sunny, Min: None'' @ degree @ ''C, Max: None'' @ degree @ ''C'') \<and>
   prefix ''- : '' (''- : Sunny, Min: None'' @ degree @ ''C, Max: None'' @ degree @ ''C'')"
  using absent_date_renders_empty [of "[(''Day'', JObj [(''IconPhrase'', JStr ''Sunny'')])]" "\<lambda>v. ''<repr>''"]
  by (simp add: get_forecast_def Let_def fetch_def raise_for_status_def is_success_def
      response_json_def forecast_text_def headline_line_def day_line_def
      temperature_field_def get1_def)

section \<open>Absent and null fields\<close>

text \<open>
  C9. The tolerance is for missing keys only. When the upstream answers
  \<^verbatim>\<open>get_location_by_coordinates\<close> with a 2xx status and an object that binds
  \<^verbatim>\<open>AdministrativeArea\<close> to null, the tool raises AttributeError (the lookup
  \<^verbatim>\<open>.get("LocalizedName")\<close> is made on \<^verbatim>\<open>None\<close>); so does
  \<^verbatim>\<open>get_current_weather\<close> when the first element of the array binds
  \<^verbatim>\<open>Temperature\<close> to null.
\<close>

theorem null_container_raises:
  "(answers e (location_request e latitude longitude) (JObj kvs) \<and>
      map_of kvs ''AdministrativeArea'' = Some JNull \<longrightarrow>
      snd (get_location_by_coordinates e latitude longitude) = Inl AttributeError) \<and>
   (answers e (weather_request e location_key) (JArr (JObj kvs # ws)) \<and>
      map_of kvs ''Temperature'' = Some JNull \<longrightarrow>
      snd (get_current_weather e location_key) = Inl AttributeError)"
  by (auto simp: get_location_by_coordinates_def get_current_weather_def Let_def
      location_text_def weather_text_def metric_field_def get1_def dest!: fetch_answers)

theorem null_container_raises_witness:
  "snd (get_location_by_coordinates
          (example_env 200 (Some (JObj [(''Key'', JStr ''178087''), (''AdministrativeArea'', JNull)])))
          (Finite False [5,2,5] 2) (Finite False [1,3,4] 2)) = Inl AttributeError \<and>
   snd (get_current_weather
          (example_env 200 (Some (JArr [JObj [(''WeatherText'', JStr ''Sunny''), (''Temperature'', JNull)]])))
          ''178087'') = Inl AttributeError"
  using
    null_container_raises [of "example_env 200 (Some (JObj [(''Key'', JStr ''178087''), (''AdministrativeArea'', JNull)]))"
      "Finite False [5,2,5] 2" "Finite False [1,3,4] 2"
      "[(''Key'', JStr ''178087''), (''AdministrativeArea'', JNull)]"]
    null_container_raises [of "example_env 200 (Some (JArr [JObj [(''WeatherText'', JStr ''Sunny''), (''Temperature'', JNull)]]))"
      _ _ "[(''WeatherText'', JStr ''Sunny''), (''Temperature'', JNull)]" "''178087''" "[]"]
  by (simp add: answers_def)

text \<open>
  C6, as stated, asks for one placeholder for every absent field. The forecast of a
  single day with no keys shows three: the headline prints \<^verbatim>\<open>No headline\<close>, the
  date prints nothing, the other fields print \<^verbatim>\<open>None\<close>. The line of the day is not
  the line with \<^verbatim>\<open>None\<close> for every field, nor the line with the empty string for
  every field.
\<close>

theorem absent_field_placeholders_differ:
  "snd (get_forecast
          (example_env 200 (Some (JObj [(''DailyForecasts'', JArr [JObj []])]))) ''178087'' 5) =
     Inr (''Forecast Headline: No headline'' @ newline @
          ''- '' @ [] @ '': '' @ ''None'' @ '', Min: '' @ ''None'' @ degree @
          ''C, Max: '' @ ''None'' @ degree @ ''C'') \<and>
   snd (get_forecast
          (example_env 200 (Some (JObj [(''DailyForecasts'', JArr [JObj []])]))) ''178087'' 5) \<noteq>
     Inr (''Forecast Headline: No headline'' @ newline @ uniform_day_line ''None'') \<and>
   snd (get_forecast
          (example_env 200 (Some (JObj [(''DailyForecasts'', JArr [JObj []])]))) ''178087'' 5) \<noteq>
     Inr (''Forecast Headline: No headline'' @ newline @ uniform_day_line [])"
  by (simp add: get_forecast_def Let_def fetch_def raise_for_status_def is_success_def
      response_json_def forecast_text_def headline_line_def day_line_def day_date_def
      temperature_field_def get1_def str_split_def uniform_day_line_def newline_def degree_def)

text \<open>
  C6, amended. For a 2xx response of the shape each tool reads, in which any key may be
  missing, every tool returns its formatted text and never raises. Each absent field
  prints as a placeholder fixed for that field: \<^verbatim>\<open>None\<close> for every field except the
  date of a forecast day, which prints as the empty string, and the forecast's
  \<^verbatim>\<open>Headline.Text\<close>, which prints as \<^verbatim>\<open>No headline\<close>.
\<close>

theorem absent_fields_render_fixed_placeholders:
  "(answers e (location_request e latitude longitude) data \<and> location_shape data \<longrightarrow>
      snd (get_location_by_coordinates e latitude longitude) =
        Inr (''Location: '' @ shown (container_repr e) (field data [''LocalizedName'']) @ '', '' @
             shown (container_repr e) (field data [''AdministrativeArea'', ''LocalizedName'']) @
             '', '' @ shown (container_repr e) (field data [''Country'', ''LocalizedName'']) @
             ''. Key: '' @ shown (container_repr e) (field data [''Key'']))) \<and>
   (answers e (search_request e query) (JArr (x # xs)) \<and> candidate_shape x \<longrightarrow>
      snd (search_location e query) =
        Inr (''Found: '' @ shown (container_repr e) (field x [''LocalizedName'']) @ '', '' @
             shown (container_repr e) (field x [''Country'', ''LocalizedName'']) @
             ''. Key: '' @ shown (container_repr e) (field x [''Key'']))) \<and>
   (answers e (weather_request e location_key) (JArr (w # ws)) \<and> conditions_shape w \<longrightarrow>
      snd (get_current_weather e location_key) =
        Inr (''Current Weather: '' @ shown (container_repr e) (field w [''WeatherText'']) @
             '', Temperature: '' @
             shown (container_repr e) (field w [''Temperature'', ''Metric'', ''Value'']) @ degree @
             shown (container_repr e) (field w [''Temperature'', ''Metric'', ''Unit'']))) \<and>
   (answers e (forecast_request e location_key days) fc \<and> forecast_shape fc \<longrightarrow>
      snd (get_forecast e location_key days) =
        Inr (str_join newline
               ((''Forecast Headline: '' @ shown_headline (container_repr e) fc) #
                map (expected_day_line (container_repr e)) (forecast_days fc)))) \<and>
   shown (container_repr e) None = ''None'' \<and>
   shown_date (JObj []) = [] \<and>
   shown_headline (container_repr e) (JObj []) = ''No headline''"
proof -
  let ?rp = "container_repr e"
  have loc: "answers e (location_request e latitude longitude) data \<and> location_shape data \<longrightarrow>
      snd (get_location_by_coordinates e latitude longitude) =
        Inr (''Location: '' @ shown ?rp (field data [''LocalizedName'']) @ '', '' @
             shown ?rp (field data [''AdministrativeArea'', ''LocalizedName'']) @
             '', '' @ shown ?rp (field data [''Country'', ''LocalizedName'']) @
             ''. Key: '' @ shown ?rp (field data [''Key'']))"
    by (auto simp: get_location_by_coordinates_def Let_def location_text_shape dest!: fetch_answers)
  have srch: "answers e (search_request e query) (JArr (x # xs)) \<and> candidate_shape x \<longrightarrow>
      snd (search_location e query) =
        Inr (''Found: '' @ shown ?rp (field x [''LocalizedName'']) @ '', '' @
             shown ?rp (field x [''Country'', ''LocalizedName'']) @
             ''. Key: '' @ shown ?rp (field x [''Key'']))"
    by (auto simp: search_location_def Let_def search_text_shape dest!: fetch_answers)
  have cond: "answers e (weather_request e location_key) (JArr (w # ws)) \<and> conditions_shape w \<longrightarrow>
      snd (get_current_weather e location_key) =
        Inr (''Current Weather: '' @ shown ?rp (field w [''WeatherText'']) @
             '', Temperature: '' @
             shown ?rp (field w [''Temperature'', ''Metric'', ''Value'']) @ degree @
             shown ?rp (field w [''Temperature'', ''Metric'', ''Unit'']))"
    by (auto simp: get_current_weather_def Let_def weather_text_shape dest!: fetch_answers)
  have fcst: "answers e (forecast_request e location_key days) fc \<and> forecast_shape fc \<longrightarrow>
      snd (get_forecast e location_key days) =
        Inr (str_join newline
               ((''Forecast Headline: '' @ shown_headline ?rp fc) #
                map (expected_day_line ?rp) (forecast_days fc)))"
    by (auto simp: get_forecast_def Let_def forecast_text_shape dest!: fetch_answers)
  have placeholders:
    "shown ?rp None = ''None''"
    "shown_date (JObj []) = []"
    "shown_headline ?rp (JObj []) = ''No headline''"
    by (simp_all add: shown_def shown_date_def shown_headline_def)
  from loc srch cond fcst placeholders show ?thesis
    by blast
qed

theorem absent_fields_render_fixed_placeholders_witness:
  "snd (get_location_by_coordinates (example_env 200 (Some (JObj [])))
          (Finite False [5,2,5] 2) (Finite False [1,3,4] 2)) =
     Inr ''Location: None, None, None. Key: None'' \<and>
   snd (search_location (example_env 200 (Some (JArr [JObj [(''Key'', JStr ''178087'')]]))) ''Berlin'') =
     Inr ''Found: None, None. Key: 178087'' \<and>
   snd (get_current_weather
          (example_env 200 (Some (JArr [JObj [(''Temperature'', JObj [])]]))) ''178087'') =
     Inr (''Current Weather: None, Temperature: None'' @ degree @ ''None'') \<and>
   snd (get_forecast
          (example_env 200 (Some (JObj [(''DailyForecasts'', JArr [JObj []])]))) ''178087'' 5) =
     Inr (''Forecast Headline: No headline'' @ newline @
          ''- : None, Min: None'' @ degree @ ''C, Max: None'' @ degree @ ''C'')"
  using
    absent_fields_render_fixed_placeholders [of "example_env 200 (Some (JObj []))"
      "Finite False [5,2,5] 2" "Finite False [1,3,4] 2" "JObj []"]
    absent_fields_render_fixed_placeholders [of "example_env 200 (Some (JArr [JObj [(''Key'', JStr ''178087'')]]))"
      _ _ _ "''Berlin''" "JObj [(''Key'', JStr ''178087'')]" "[]"]
    absent_fields_render_fixed_placeholders [of "example_env 200 (Some (JArr [JObj [(''Temperature'', JObj [])]]))"
      _ _ _ _ _ _ "''178087''" "JObj [(''Temperature'', JObj [])]" "[]"]
    absent_fields_render_fixed_placeholders [of "example_env 200 (Some (JObj [(''DailyForecasts'', JArr [JObj []])]))"
      _ _ _ _ _ _ "''178087''" _ _ 5 "JObj [(''DailyForecasts'', JArr [JObj []])]"]
  by (simp add: answers_def location_shape_def candidate_shape_def conditions_shape_def
      forecast_shape_def day_shape_def date_shape_def obj_or_absent_def shown_def
      shown_headline_def shown_date_def expected_day_line_def forecast_days_def)

section \<open>The query of the reverse geocoding request\<close>

lemma is_digit_digit_char: "d < 10 \<Longrightarrow> is_digit (digit_char d)"
proof -
  assume "d < 10"
  then have "d \<in> {0, 1, 2, 3, 4, 5, 6, 7, 8, 9}"
    by auto
  then show ?thesis
    by (auto simp: is_digit_def digit_char_def)
qed

lemma digits_str_digits:
  "list_all (\<lambda>d. d < 10) ds \<Longrightarrow> list_all is_digit (digits_str ds)"
  by (induction ds) (simp_all add: digits_str_def is_digit_digit_char)

lemma zeros_digits: "list_all is_digit (replicate n CHR ''0'')"
  by (induction n) (simp_all add: is_digit_def)

lemma unsigned_decimalI:
  assumes "list_all is_digit a" "a \<noteq> []" "list_all is_digit b" "b \<noteq> []"
  shows "unsigned_decimal (a @ ''.'' @ b)"
proof -
  have dot: "\<not> is_digit CHR ''.''"
    by (simp add: is_digit_def)
  from assms(1) have "takeWhile is_digit (a @ CHR ''.'' # b) = a"
    by (induction a) (simp_all add: dot)
  moreover from assms(1) have "dropWhile is_digit (a @ CHR ''.'' # b) = CHR ''.'' # b"
    by (induction a) (simp_all add: dot)
  ultimately show ?thesis
    using assms by (simp add: unsigned_decimal_def)
qed

lemma positional_unsigned:
  assumes "ds \<noteq> []" "list_all (\<lambda>d. d < 10) ds" "- 4 < decpt" "decpt \<le> 16"
  shows "unsigned_decimal
     (if decpt \<le> 0 then ''0.'' @ replicate (nat (- decpt)) CHR ''0'' @ digits_str ds
      else if nat decpt \<ge> length ds
        then digits_str ds @ replicate (nat decpt - length ds) CHR ''0'' @ ''.0''
      else digits_str (take (nat decpt) ds) @ ''.'' @ digits_str (drop (nat decpt) ds))"
proof -
  have dd: "list_all is_digit (digits_str ds)"
    using assms(2) by (rule digits_str_digits)
  have ne: "digits_str ds \<noteq> []"
    using assms(1) by (simp add: digits_str_def)
  have dz: "is_digit CHR ''0''"
    by (simp add: is_digit_def)
  show ?thesis
  proof (cases "decpt \<le> 0")
    case True
    have "unsigned_decimal (''0'' @ ''.'' @ (replicate (nat (- decpt)) CHR ''0'' @ digits_str ds))"
      by (rule unsigned_decimalI) (simp_all add: dz zeros_digits dd ne)
    with True show ?thesis by simp
  next
    case False
    show ?thesis
    proof (cases "nat decpt \<ge> length ds")
      case True
      have "unsigned_decimal ((digits_str ds @ replicate (nat decpt - length ds) CHR ''0'') @ ''.'' @ ''0'')"
        by (rule unsigned_decimalI) (simp_all add: dz zeros_digits dd ne)
      with True False show ?thesis by simp
    next
      case short: False
      from assms(2) have t: "list_all (\<lambda>d. d < 10) (take (nat decpt) ds)"
        and d: "list_all (\<lambda>d. d < 10) (drop (nat decpt) ds)"
        by (auto simp: list_all_iff dest: in_set_takeD in_set_dropD)
      have "unsigned_decimal (digits_str (take (nat decpt) ds) @ ''.'' @ digits_str (drop (nat decpt) ds))"
        using False short assms(1)
        by (intro unsigned_decimalI digits_str_digits t d) (auto simp: digits_str_def)
      with False short show ?thesis by simp
    qed
  qed
qed

lemma unsigned_not_minus: "unsigned_decimal s \<Longrightarrow> s \<noteq> [] \<and> hd s \<noteq> CHR ''-''"
  by (cases s) (auto simp: unsigned_decimal_def Let_def is_digit_def split: if_splits)

lemma positional_plain: "positional x \<Longrightarrow> plain_decimal (float_repr x)"
proof (cases x)
  case (Finite neg ds decpt)
  assume "positional x"
  with Finite have h: "ds \<noteq> []" "list_all (\<lambda>d. d < 10) ds" "- 4 < decpt" "decpt \<le> 16"
    by simp_all
  let ?body = "if decpt \<le> 0 then ''0.'' @ replicate (nat (- decpt)) CHR ''0'' @ digits_str ds
      else if nat decpt \<ge> length ds
        then digits_str ds @ replicate (nat decpt - length ds) CHR ''0'' @ ''.0''
      else digits_str (take (nat decpt) ds) @ ''.'' @ digits_str (drop (nat decpt) ds)"
  have u: "unsigned_decimal ?body"
    by (rule positional_unsigned [OF h])
  have r: "float_repr x = (if neg then ''-'' else []) @ ?body"
    using h by (simp add: Finite float_repr_def)
  show ?thesis
  proof (cases neg)
    case True
    with u r show ?thesis by (simp add: plain_decimal_def)
  next
    case False
    from unsigned_not_minus [OF u] obtain c cs where "?body = c # cs" "c \<noteq> CHR ''-''"
      by (cases ?body) auto
    with u r False show ?thesis by (simp add: plain_decimal_def)
  qed
qed simp_all

lemma unsigned_decimal_chars:
  assumes "unsigned_decimal s" "c \<in> set s"
  shows "is_digit c \<or> c = CHR ''.''"
proof -
  from assms(1) obtain fp where rest: "dropWhile is_digit s = CHR ''.'' # fp"
    and fp: "list_all is_digit fp"
    by (auto simp: unsigned_decimal_def Let_def split: list.splits)
  have "set s = set (takeWhile is_digit s) \<union> set (dropWhile is_digit s)"
    by (metis set_append takeWhile_dropWhile_id)
  with assms(2) have "c \<in> set (takeWhile is_digit s) \<or> c \<in> set (CHR ''.'' # fp)"
    by (auto simp: rest)
  then show ?thesis
  proof
    assume "c \<in> set (takeWhile is_digit s)"
    then show ?thesis
      by (blast dest: set_takeWhileD)
  next
    assume "c \<in> set (CHR ''.'' # fp)"
    with fp show ?thesis
      by (auto simp: list_all_iff)
  qed
qed

lemma not_digit_letters: "\<not> is_digit CHR ''e''" "\<not> is_digit CHR ''n''"
  by (simp_all add: is_digit_def)

lemma unsigned_decimal_no_letters:
  assumes "unsigned_decimal s"
  shows "CHR ''e'' \<notin> set s \<and> CHR ''n'' \<notin> set s"
proof -
  have "CHR ''e'' \<in> set s \<Longrightarrow> False"
    using unsigned_decimal_chars [OF assms, of "CHR ''e''"] by (simp add: not_digit_letters)
  moreover have "CHR ''n'' \<in> set s \<Longrightarrow> False"
    using unsigned_decimal_chars [OF assms, of "CHR ''n''"] by (simp add: not_digit_letters)
  ultimately show ?thesis
    by blast
qed

lemma plain_decimal_chars:
  assumes "plain_decimal s"
  shows "CHR ''e'' \<notin> set s \<and> CHR ''n'' \<notin> set s"
proof (cases s)
  case Nil
  then show ?thesis by simp
next
  case (Cons c cs)
  show ?thesis
  proof (cases "c = CHR ''-''")
    case True
    with assms Cons have "unsigned_decimal cs"
      by (simp add: plain_decimal_def)
    from unsigned_decimal_no_letters [OF this] True Cons show ?thesis
      by simp
  next
    case False
    with assms Cons have "unsigned_decimal s"
      by (simp add: plain_decimal_def)
    then show ?thesis
      by (rule unsigned_decimal_no_letters)
  qed
qed

lemma out_of_range_not_plain: "out_of_range x \<Longrightarrow> \<not> plain_decimal (float_repr x)"
proof
  assume o: "out_of_range x" and p: "plain_decimal (float_repr x)"
  from o have "CHR ''e'' \<in> set (float_repr x) \<or> CHR ''n'' \<in> set (float_repr x)"
    by (cases x) (auto simp: float_repr_def)
  with plain_decimal_chars [OF p] show False
    by blast
qed

text \<open>
  C8, as stated, fails for a latitude of 0.00001: Python prints this float as
  \<^verbatim>\<open>1e-05\<close>, so the parameter \<^verbatim>\<open>q\<close> of the request is \<^verbatim>\<open>1e-05,0.0\<close>, which
  is not a plain decimal.
\<close>

theorem small_latitude_renders_scientific:
  "fst (get_location_by_coordinates (example_env 200 None)
      (Finite False [1] (- 4)) (Finite False [0] 1)) =
     [\<lparr>http_method = ''GET'',
       url = ''https://api.example/locations/v1/cities/geoposition/search'',
       params = [(''apikey'', Some ''k3y''), (''q'', Some ''1e-05,0.0'')]\<rparr>] \<and>
   \<not> plain_decimal ''1e-05''"
  by (simp add: get_location_by_coordinates_def location_request_def Let_def float_repr_def
      digits_str_def digit_char_def exp_str_def str_nat.simps str_opt_def
      plain_decimal_def unsigned_decimal_def is_digit_def)

text \<open>
  C8, amended. \<^verbatim>\<open>get_location_by_coordinates\<close> issues exactly one GET request, to
  the geoposition search path under the base URL, whose parameter \<^verbatim>\<open>q\<close> is Python's
  \<^verbatim>\<open>repr\<close> of the latitude, a comma, and the \<^verbatim>\<open>repr\<close> of the longitude. The
  \<^verbatim>\<open>repr\<close> is a plain decimal for every positional float (zero, or a magnitude from
  0.0001 up to, not including, \<open>10\<^sup>1\<^sup>6\<close>), and it is not a plain decimal for a float
  out of that range (scientific notation, \<^verbatim>\<open>inf\<close>, \<^verbatim>\<open>nan\<close>).
\<close>

theorem location_query_rendering:
  "fst (get_location_by_coordinates e latitude longitude) =
     [\<lparr>http_method = ''GET'',
       url = str_opt (BASE_URL e) @ ''/locations/v1/cities/geoposition/search'',
       params = [(''apikey'', API_KEY e),
                 (''q'', Some (float_repr latitude @ '','' @ float_repr longitude))]\<rparr>] \<and>
   (positional latitude \<longrightarrow> plain_decimal (float_repr latitude)) \<and>
   (positional longitude \<longrightarrow> plain_decimal (float_repr longitude)) \<and>
   (out_of_range latitude \<longrightarrow> \<not> plain_decimal (float_repr latitude)) \<and>
   (out_of_range longitude \<longrightarrow> \<not> plain_decimal (float_repr longitude))"
  by (simp add: get_location_by_coordinates_def location_request_def Let_def positional_plain
      out_of_range_not_plain)

theorem location_query_rendering_witness:
  "params (hd (fst (get_location_by_coordinates (example_env 200 None)
      (Finite False [5,2,5,2] 2) (Finite True [1,3,4,0,5] 2)))) =
     [(''apikey'', Some ''k3y''), (''q'', Some ''52.52,-13.405'')] \<and>
   plain_decimal ''52.52'' \<and> plain_decimal ''-13.405''"
  using location_query_rendering [of "example_env 200 None" "Finite False [5,2,5,2] 2" "Finite True [1,3,4,0,5] 2"]
  by (simp add: float_repr_def digits_str_def digit_char_def)

end
